theory Spec2Isabelle
  imports Complex_Main
begin

section \<open>Modelling conventions\<close>

text \<open>
  The development embeds the ledger engine (class \<open>DataManager\<close>), the currency
  formatter (class \<open>CurrencyFormatter\<close>) and the number abbreviator (class
  \<open>NumberFormatter\<close>) of the personal finance dashboard.

  \<^item> A JavaScript \<open>number\<close> is modelled as a rational (\<^typ>\<open>rat\<close>), the exact
    value of the double: no \<open>NaN\<close>, no infinities. The one arithmetic operation of
    the source that rounds, the division in \<open>abbreviate\<close>, rounds to the nearest
    double (\<open>divideDoubles\<close>). The amounts at which the formatters are evaluated
    below (0.5, 1.5, 5, 12, 123, 999, 1000, 1450, 1500, 1234567, 1234567.5, 1234567.89,
    2500000, 150000000, some of them with a minus sign) are either doubles themselves or,
    for 1234567.89, so close to the nearest double that \<open>toFixed\<close> prints the same
    digits.
  \<^item> A JavaScript string is modelled as a \<^typ>\<open>string\<close>; a character outside ASCII
    (a currency symbol) is the sequence of its UTF-8 bytes. The formatters search and
    compare strings and measure only strings of ASCII characters, which is the same on
    bytes as on UTF-16 code units.
  \<^item> A JavaScript object used as a dictionary is the map of its own properties. Where
    the category colours are read by a key that comes from data, the properties inherited
    from \<open>Object.prototype\<close> are part of the model (\<open>truthyProperty\<close>). The lookup
    of a currency code in the currency table is modelled for the codes that do not name
    an inherited property: for those that do, the source takes the inherited function for
    a configuration. The results on the formatter are stated at codes of the table.
  \<^item> \<open>toFixed\<close> and the printing of integers are modelled for magnitudes below
    \<open>10^21\<close>, from which on JavaScript prints the exponent notation; the results on
    the formatters that hold for every amount carry this bound.
  \<^item> An optional field \<open>f?: T\<close> is a \<open>T option\<close>; \<open>None\<close> is \<open>undefined\<close>.
  \<^item> The four localStorage keys are the four fields of the record \<open>Storage\<close>; reading
    and writing a key never fails.
  \<^item> An operation that mutates storage takes the storage and returns the new one; an
    operation that throws returns the error together with the storage as it was left at
    the moment of the throw.
  \<^item> \<open>Date.now().toString()\<close> and \<open>new Date().toISOString()\<close> are read from a
    \<open>Clock\<close> argument; one operation sees one instant.
\<close>

section \<open>Ledger data model\<close>

datatype EntryType = Expense | Transfer

record SpendingEntry =
  se_id :: string
  se_date :: string
  se_amount :: rat
  se_category :: string
  se_description :: "string option"
  se_accountId :: "string option"
  se_type :: EntryType
  se_transferToAccountId :: "string option"
  se_createdAt :: string
  se_updatedAt :: string

text \<open>The argument of \<open>addSpendingEntry\<close>: \<open>Omit<SpendingEntry, 'id' | 'createdAt' | 'updatedAt'>\<close>.\<close>

record SpendingEntryInput =
  in_date :: string
  in_amount :: rat
  in_category :: string
  in_description :: "string option"
  in_accountId :: "string option"
  in_type :: EntryType
  in_transferToAccountId :: "string option"

text \<open>
  \<open>Partial<SpendingEntry>\<close>: for a required field \<open>None\<close> means that the key is absent;
  for an optional field \<open>None\<close> means absent, \<open>Some None\<close> present with the value
  \<open>undefined\<close>.
\<close>

record SpendingEntryUpdates =
  up_id :: "string option"
  up_date :: "string option"
  up_amount :: "rat option"
  up_category :: "string option"
  up_description :: "string option option"
  up_accountId :: "string option option"
  up_type :: "EntryType option"
  up_transferToAccountId :: "string option option"
  up_createdAt :: "string option"
  up_updatedAt :: "string option"

record SavingsAccount =
  sa_id :: string
  sa_bankName :: string
  sa_accountName :: string
  sa_balance :: rat
  sa_createdAt :: string
  sa_updatedAt :: string

record SavingsAccountUpdates =
  ua_id :: "string option"
  ua_bankName :: "string option"
  ua_accountName :: "string option"
  ua_balance :: "rat option"
  ua_createdAt :: "string option"
  ua_updatedAt :: "string option"

record Investment =
  inv_id :: string
  inv_name :: string
  inv_amount :: rat
  inv_date :: string
  inv_notes :: "string option"
  inv_createdAt :: string
  inv_updatedAt :: string

text \<open>\<open>AppSettings\<close> as it is read back from storage: any field may be missing.\<close>

record StoredSettings =
  ss_monthlyTarget :: "rat option"
  ss_categories :: "string list option"
  ss_currency :: "string option"
  ss_darkMode :: "bool option"
  ss_appTitle :: "string option"
  ss_logoUrl :: "string option"
  ss_categoryColors :: "(string \<rightharpoonup> string) option"

record Storage =
  spending :: "SpendingEntry list"
  savings :: "SavingsAccount list"
  investments :: "Investment list"
  settings :: "StoredSettings option"

record Clock =
  now_ms :: string
  now_iso :: string

datatype error =
  InsufficientBalance  \<comment> \<open>\<open>Error('Insufficient balance in selected account')\<close>\<close>
| TransferFailed  \<comment> \<open>\<open>Error('Transfer failed: insufficient balance or invalid accounts')\<close>\<close>

text \<open>Truthiness of a value of type \<open>string | undefined\<close>: the empty string is falsy.\<close>

definition truthy :: "string option \<Rightarrow> bool" where
  "truthy v = (case v of None \<Rightarrow> False | Some s \<Rightarrow> s \<noteq> [])"

text \<open>\<open>Array.prototype.findIndex\<close>; \<open>None\<close> is the result \<open>-1\<close>.\<close>

fun findIndex :: "('a \<Rightarrow> bool) \<Rightarrow> 'a list \<Rightarrow> nat option" where
  "findIndex P [] = None"
| "findIndex P (x # xs) =
     (if P x then Some 0 else map_option Suc (findIndex P xs))"

section \<open>Savings accounts\<close>

definition getSavingsAccounts :: "Storage \<Rightarrow> SavingsAccount list" where
  "getSavingsAccounts st = savings st"

text \<open>The object spread \<open>{...account, ...updates, updatedAt: now}\<close>.\<close>

definition mergeAccount :: "Clock \<Rightarrow> SavingsAccount \<Rightarrow> SavingsAccountUpdates \<Rightarrow> SavingsAccount" where
  "mergeAccount clk a u =
     \<lparr> sa_id = (case ua_id u of None \<Rightarrow> sa_id a | Some v \<Rightarrow> v),
       sa_bankName = (case ua_bankName u of None \<Rightarrow> sa_bankName a | Some v \<Rightarrow> v),
       sa_accountName = (case ua_accountName u of None \<Rightarrow> sa_accountName a | Some v \<Rightarrow> v),
       sa_balance = (case ua_balance u of None \<Rightarrow> sa_balance a | Some v \<Rightarrow> v),
       sa_createdAt = (case ua_createdAt u of None \<Rightarrow> sa_createdAt a | Some v \<Rightarrow> v),
       sa_updatedAt = now_iso clk \<rparr>"

definition updateSavingsAccount ::
  "Clock \<Rightarrow> string \<Rightarrow> SavingsAccountUpdates \<Rightarrow> Storage \<Rightarrow> SavingsAccount option \<times> Storage" where
  "updateSavingsAccount clk ident updates st =
     (let accounts = getSavingsAccounts st in
      case findIndex (\<lambda>account. sa_id account = ident) accounts of
        None \<Rightarrow> (None, st)
      | Some index \<Rightarrow>
          (let accounts' = accounts[index := mergeAccount clk (accounts ! index) updates]
           in (Some (accounts' ! index), st\<lparr>savings := accounts'\<rparr>)))"

text \<open>The object literal \<open>{ balance: b }\<close>.\<close>

definition balanceUpdate :: "rat \<Rightarrow> SavingsAccountUpdates" where
  "balanceUpdate b =
     \<lparr> ua_id = None, ua_bankName = None, ua_accountName = None, ua_balance = Some b,
       ua_createdAt = None, ua_updatedAt = None \<rparr>"

definition transferBetweenAccounts ::
  "Clock \<Rightarrow> string \<Rightarrow> string \<Rightarrow> rat \<Rightarrow> Storage \<Rightarrow> bool \<times> Storage" where
  "transferBetweenAccounts clk fromId toId amount st =
     (let accounts = getSavingsAccounts st in
      case (find (\<lambda>acc. sa_id acc = fromId) accounts, find (\<lambda>acc. sa_id acc = toId) accounts) of
        (Some fromAccount, Some toAccount) \<Rightarrow>
          if sa_balance fromAccount < amount then (False, st)
          else
            (let st1 = snd (updateSavingsAccount clk fromId
                              (balanceUpdate (sa_balance fromAccount - amount)) st);
                 st2 = snd (updateSavingsAccount clk toId
                              (balanceUpdate (sa_balance toAccount + amount)) st1)
             in (True, st2))
      | _ \<Rightarrow> (False, st))"

section \<open>Spending entries\<close>

definition getSpendingEntries :: "Storage \<Rightarrow> SpendingEntry list" where
  "getSpendingEntries st = spending st"

text \<open>The object spread \<open>{...entry, id: ..., createdAt: ..., updatedAt: ...}\<close>.\<close>

definition newEntryOf :: "Clock \<Rightarrow> SpendingEntryInput \<Rightarrow> SpendingEntry" where
  "newEntryOf clk entry =
     \<lparr> se_id = now_ms clk,
       se_date = in_date entry,
       se_amount = in_amount entry,
       se_category = in_category entry,
       se_description = in_description entry,
       se_accountId = in_accountId entry,
       se_type = in_type entry,
       se_transferToAccountId = in_transferToAccountId entry,
       se_createdAt = now_iso clk,
       se_updatedAt = now_iso clk \<rparr>"

text \<open>
  The balance effect of an entry of the given type, amount and accounts, as both
  \<open>addSpendingEntry\<close> and the second half of \<open>updateSpendingEntry\<close> write it out:
  \<open>None\<close> when it went through, the error thrown otherwise.
\<close>

definition applyAccountChanges ::
  "Clock \<Rightarrow> EntryType \<Rightarrow> string option \<Rightarrow> string option \<Rightarrow> rat \<Rightarrow> Storage
     \<Rightarrow> error option \<times> Storage" where
  "applyAccountChanges clk ty accountId transferToAccountId amount st =
     (if ty = Expense \<and> truthy accountId then
        (case find (\<lambda>acc. Some (sa_id acc) = accountId) (getSavingsAccounts st) of
           Some account \<Rightarrow>
             if sa_balance account \<ge> amount then
               (None, snd (updateSavingsAccount clk (the accountId)
                             (balanceUpdate (sa_balance account - amount)) st))
             else (Some InsufficientBalance, st)
         | None \<Rightarrow> (Some InsufficientBalance, st))
      else if ty = Transfer \<and> truthy accountId \<and> truthy transferToAccountId then
        (let (success, st1) =
               transferBetweenAccounts clk (the accountId) (the transferToAccountId) amount st
         in if \<not> success then (Some TransferFailed, st1) else (None, st1))
      else (None, st))"

definition addSpendingEntry ::
  "Clock \<Rightarrow> SpendingEntryInput \<Rightarrow> Storage \<Rightarrow> (error + SpendingEntry) \<times> Storage" where
  "addSpendingEntry clk entry st =
     (let entries = getSpendingEntries st;
          newEntry = newEntryOf clk entry
      in case applyAccountChanges clk (in_type entry) (in_accountId entry)
                (in_transferToAccountId entry) (in_amount entry) st of
           (Some err, st1) \<Rightarrow> (Inl err, st1)
         | (None, st1) \<Rightarrow> (Inr newEntry, st1\<lparr>spending := entries @ [newEntry]\<rparr>))"

text \<open>
  The first half of \<open>updateSpendingEntry\<close> and of \<open>deleteSpendingEntry\<close>: give the
  entry's amount back. Neither a missing account nor a failed reverse transfer is
  reported.
\<close>

definition revertAccountChanges :: "Clock \<Rightarrow> SpendingEntry \<Rightarrow> Storage \<Rightarrow> Storage" where
  "revertAccountChanges clk e st =
     (if se_type e = Expense \<and> truthy (se_accountId e) then
        (case find (\<lambda>acc. Some (sa_id acc) = se_accountId e) (getSavingsAccounts st) of
           Some account \<Rightarrow>
             snd (updateSavingsAccount clk (the (se_accountId e))
                    (balanceUpdate (sa_balance account + se_amount e)) st)
         | None \<Rightarrow> st)
      else if se_type e = Transfer \<and> truthy (se_accountId e) \<and> truthy (se_transferToAccountId e) then
        snd (transferBetweenAccounts clk (the (se_transferToAccountId e)) (the (se_accountId e))
               (se_amount e) st)
      else st)"

text \<open>The object spread \<open>{...originalEntry, ...updates, updatedAt: now}\<close>.\<close>

definition mergeEntry :: "Clock \<Rightarrow> SpendingEntry \<Rightarrow> SpendingEntryUpdates \<Rightarrow> SpendingEntry" where
  "mergeEntry clk e u =
     \<lparr> se_id = (case up_id u of None \<Rightarrow> se_id e | Some v \<Rightarrow> v),
       se_date = (case up_date u of None \<Rightarrow> se_date e | Some v \<Rightarrow> v),
       se_amount = (case up_amount u of None \<Rightarrow> se_amount e | Some v \<Rightarrow> v),
       se_category = (case up_category u of None \<Rightarrow> se_category e | Some v \<Rightarrow> v),
       se_description = (case up_description u of None \<Rightarrow> se_description e | Some v \<Rightarrow> v),
       se_accountId = (case up_accountId u of None \<Rightarrow> se_accountId e | Some v \<Rightarrow> v),
       se_type = (case up_type u of None \<Rightarrow> se_type e | Some v \<Rightarrow> v),
       se_transferToAccountId =
         (case up_transferToAccountId u of None \<Rightarrow> se_transferToAccountId e | Some v \<Rightarrow> v),
       se_createdAt = (case up_createdAt u of None \<Rightarrow> se_createdAt e | Some v \<Rightarrow> v),
       se_updatedAt = now_iso clk \<rparr>"

text \<open>\<open>Inr None\<close> is the result \<open>null\<close> (no entry has the id).\<close>

definition updateSpendingEntry ::
  "Clock \<Rightarrow> string \<Rightarrow> SpendingEntryUpdates \<Rightarrow> Storage
     \<Rightarrow> (error + SpendingEntry option) \<times> Storage" where
  "updateSpendingEntry clk ident updates st =
     (let entries = getSpendingEntries st in
      case findIndex (\<lambda>entry. se_id entry = ident) entries of
        None \<Rightarrow> (Inr None, st)
      | Some index \<Rightarrow>
          (let originalEntry = entries ! index;
               st1 = revertAccountChanges clk originalEntry st;
               updatedEntry = mergeEntry clk originalEntry updates
           in case applyAccountChanges clk (se_type updatedEntry) (se_accountId updatedEntry)
                     (se_transferToAccountId updatedEntry) (se_amount updatedEntry) st1 of
                (Some err, st2) \<Rightarrow> (Inl err, st2)
              | (None, st2) \<Rightarrow>
                  (Inr (Some updatedEntry), st2\<lparr>spending := entries[index := updatedEntry]\<rparr>)))"

section \<open>Investments\<close>

definition getInvestments :: "Storage \<Rightarrow> Investment list" where
  "getInvestments st = investments st"

text \<open>\<open>this.getInvestments().reduce((total, investment) => investment.amount, 0)\<close>\<close>

definition getTotalInvestments :: "Storage \<Rightarrow> rat" where
  "getTotalInvestments st = foldl (\<lambda>total investment. inv_amount investment) 0 (getInvestments st)"

section \<open>Settings\<close>














section \<open>JavaScript built-ins used by the formatters\<close>

text \<open>The character classes \<open>\d\<close>, \<open>\w\<close> and (for ASCII) \<open>\s\<close>.\<close>

definition isDigit :: "char \<Rightarrow> bool" where
  "isDigit c = (c \<in> set ''0123456789'')"

definition isWordChar :: "char \<Rightarrow> bool" where
  "isWordChar c =
     (c \<in> set ''0123456789abcdefghijklmnopqrstuvwxyzABCDEFGHIJKLMNOPQRSTUVWXYZ_'')"

definition isSpace :: "char \<Rightarrow> bool" where
  "isSpace c = (c \<in> set [CHR 0x09, CHR 0x0A, CHR 0x0B, CHR 0x0C, CHR 0x0D, CHR '' ''])"

definition digitChar :: "nat \<Rightarrow> char" where
  "digitChar d = ''0123456789'' ! d"

text \<open>The decimal digits of a natural number, without leading zeros; \<open>0\<close> is \<open>''0''\<close>.\<close>

function digitsOf :: "nat \<Rightarrow> string" where
  "digitsOf n = (if n < 10 then [digitChar n] else digitsOf (n div 10) @ [digitChar (n mod 10)])"
  by pat_completeness auto
termination
  by (relation "measure (\<lambda>n. n)") auto

declare digitsOf.simps [simp del]

text \<open>
  \<open>Number.prototype.toFixed(f)\<close> for a finite number below \<open>10^21\<close> in magnitude: the
  sign, then the integer \<open>n\<close> for which \<open>n / 10^f\<close> is nearest to the absolute value
  (the larger one of two), written with at least \<open>f + 1\<close> digits and a point before
  the last \<open>f\<close>.
\<close>

definition toFixed :: "rat \<Rightarrow> nat \<Rightarrow> string" where
  "toFixed x f =
     (let s = (if x < 0 then ''-'' else []);
          n = nat \<lfloor>\<bar>x\<bar> * 10 ^ f + 1 / 2\<rfloor>;
          m = digitsOf n;
          m' = (if f \<noteq> 0 then
                  (let z = (if length m \<le> f then replicate (f + 1 - length m) CHR ''0'' else []);
                       zm = z @ m;
                       k = length zm
                   in take (k - f) zm @ ''.'' @ drop (k - f) zm)
                else m)
      in s @ m')"

text \<open>\<open>String.prototype.split\<close> with a separator of one character.\<close>

fun splitOn :: "char \<Rightarrow> string \<Rightarrow> string list" where
  "splitOn sep [] = [[]]"
| "splitOn sep (c # cs) =
     (if c = sep then [] # splitOn sep cs
      else (let ps = splitOn sep cs in (c # hd ps) # tl ps))"

text \<open>Reading an array at an index; \<open>None\<close> is \<open>undefined\<close>.\<close>

definition atIndex :: "'a list \<Rightarrow> nat \<Rightarrow> 'a option" where
  "atIndex xs i = (if i < length xs then Some (xs ! i) else None)"

text \<open>
  \<open>s.replace(/\B(?=(\d{g})+(?!\d))/g, sep)\<close>. The pattern matches the empty string at
  every position that is not a word boundary and is followed by a maximal run of digits
  whose length is a positive multiple of \<open>g\<close>. Such a position has a digit on its
  right, so it is not a word boundary exactly when the character on its left is a word
  character. \<open>prevWord\<close> tells whether the character on the left is one; it is
  \<open>False\<close> at the start of the string.
\<close>

fun insertSeparators :: "nat \<Rightarrow> string \<Rightarrow> bool \<Rightarrow> string \<Rightarrow> string" where
  "insertSeparators g sep prevWord [] = []"
| "insertSeparators g sep prevWord (c # cs) =
     (let run = length (takeWhile isDigit (c # cs))
      in (if prevWord \<and> 0 < run \<and> run mod g = 0 then sep else [])
           @ c # insertSeparators g sep (isWordChar c) cs)"

definition groupDigits :: "nat \<Rightarrow> string \<Rightarrow> string \<Rightarrow> string" where
  "groupDigits g sep s = insertSeparators g sep False s"

text \<open>\<open>String.prototype.replace\<close> with a string pattern: the first occurrence only.\<close>

fun replaceFirst :: "string \<Rightarrow> string \<Rightarrow> string \<Rightarrow> string" where
  "replaceFirst pat rep [] = (if pat = [] then rep else [])"
| "replaceFirst pat rep (c # cs) =
     (if take (length pat) (c # cs) = pat then rep @ drop (length pat) (c # cs)
      else c # replaceFirst pat rep cs)"

text \<open>
  \<open>s.replace(new RegExp(`\\${sep}`, 'g'), '')\<close> for a separator that is one character
  and not a letter or a digit, as every separator of the currency table is: the escaped
  character matches itself, and every occurrence is removed.
\<close>

definition removeEscaped :: "string \<Rightarrow> string \<Rightarrow> string" where
  "removeEscaped sep s = (case sep of [c] \<Rightarrow> filter (\<lambda>x. x \<noteq> c) s | _ \<Rightarrow> s)"

text \<open>\<open>s.replace(/\./g, '')\<close>\<close>

definition removeDots :: "string \<Rightarrow> string" where
  "removeDots s = filter (\<lambda>x. x \<noteq> CHR ''.'') s"

text \<open>\<open>String.prototype.trim\<close>, for ASCII white space.\<close>

definition trim :: "string \<Rightarrow> string" where
  "trim s = rev (dropWhile isSpace (rev (dropWhile isSpace s)))"

definition digitValue :: "char \<Rightarrow> nat" where
  "digitValue c = of_char c - 48"

definition digitsValue :: "string \<Rightarrow> nat" where
  "digitsValue ds = foldl (\<lambda>acc c. 10 * acc + digitValue c) 0 ds"

definition pow10 :: "int \<Rightarrow> rat" where
  "pow10 e = (if 0 \<le> e then 10 ^ nat e else 1 / 10 ^ nat (- e))"

text \<open>
  \<open>parseFloat\<close>: skips leading white space, then reads the longest prefix that is a
  decimal literal (sign, digits, fraction, exponent). \<open>None\<close> is \<open>NaN\<close>. The literal
  \<open>Infinity\<close> is not modelled.
\<close>

definition parseFloat :: "string \<Rightarrow> rat option" where
  "parseFloat str =
     (let t = dropWhile isSpace str;
          (sgn, r0) = (case t of
                         c # r \<Rightarrow> if c = CHR ''-'' then (- 1, r)
                                  else if c = CHR ''+'' then (1, r) else (1, t)
                       | [] \<Rightarrow> (1, t));
          ip = takeWhile isDigit r0;
          r1 = dropWhile isDigit r0;
          (fp, r2) = (case r1 of
                        c # r \<Rightarrow> if c = CHR ''.'' then (takeWhile isDigit r, dropWhile isDigit r)
                                 else ([], r1)
                      | [] \<Rightarrow> ([], r1));
          ex = (case r2 of
                  c # r \<Rightarrow>
                    if c = CHR ''e'' \<or> c = CHR ''E'' then
                      (let (esgn, r3) = (case r of
                                           d # r' \<Rightarrow> if d = CHR ''-'' then (- 1, r')
                                                    else if d = CHR ''+'' then (1, r') else (1, r)
                                         | [] \<Rightarrow> (1, r));
                           ed = takeWhile isDigit r3
                       in if ed = [] then 0 else esgn * int (digitsValue ed))
                    else 0
                | [] \<Rightarrow> 0)
      in if ip = [] \<and> fp = [] then None
         else Some (sgn * (of_nat (digitsValue (ip @ fp)) / 10 ^ length fp) * pow10 ex))"

text \<open>\<open>Math.round\<close>: the nearest integer, a half going up.\<close>

definition Math_round :: "rat \<Rightarrow> int" where
  "Math_round x = \<lfloor>x + 1 / 2\<rfloor>"

text \<open>\<open>x % 1\<close>: what is left of \<open>x\<close> after its integer part, with the sign of \<open>x\<close>.\<close>

definition remainder1 :: "rat \<Rightarrow> rat" where
  "remainder1 x = x - of_int (if 0 \<le> x then \<lfloor>x\<rfloor> else \<lceil>x\<rceil>)"

text \<open>
  \<open>Number.prototype.toString\<close> (also the conversion inside a template literal). An
  integer below \<open>10^21\<close> in magnitude is written with its decimal digits. The shortest
  decimal that reads back as the same double, which JavaScript prints for any other
  number, is a matter of binary floating point: it is the parameter \<open>fracToString\<close>.
\<close>

definition numberToString :: "(rat \<Rightarrow> string) \<Rightarrow> rat \<Rightarrow> string" where
  "numberToString fracToString x =
     (if x = of_int \<lfloor>x\<rfloor> then
        (if x < 0 then ''-'' else []) @ digitsOf (nat \<bar>\<lfloor>x\<rfloor>\<bar>)
      else fracToString x)"

subsection \<open>Arithmetic on doubles\<close>

text \<open>
  A double is a rational of the form \<open>m * 2^e\<close> with \<open>|m| < 2^53\<close>. Comparison,
  \<open>Math.abs\<close>, \<open>Math.round\<close>, \<open>% 1\<close> and \<open>toFixed\<close> act on the exact value of
  a double. A division gives the double nearest to the exact quotient, the one with the
  even significand of two that are equally near (IEEE 754 binary64). Overflow to
  \<open>Infinity\<close> is not modelled: the quotient of a double by a threshold of at least 1000
  does not overflow.
\<close>

text \<open>The number of binary digits of a natural number.\<close>

function bitLength :: "nat \<Rightarrow> nat" where
  "bitLength n = (if n = 0 then 0 else Suc (bitLength (n div 2)))"
  by pat_completeness auto
termination
  by (relation "measure (\<lambda>n. n)") auto

declare bitLength.simps [simp del]

text \<open>For \<open>x > 0\<close>, the exponent \<open>e\<close> with \<open>2^e \<le> x < 2^(e + 1)\<close>.\<close>

definition floorLog2 :: "rat \<Rightarrow> int" where
  "floorLog2 x =
     (if 1 \<le> x then int (bitLength (nat \<lfloor>x\<rfloor>)) - 1
      else - int (bitLength (nat \<lceil>1 / x\<rceil> - 1)))"

definition pow2 :: "int \<Rightarrow> rat" where
  "pow2 e = (if 0 \<le> e then 2 ^ nat e else 1 / 2 ^ nat (- e))"

text \<open>The nearest integer, the even one of two that are equally near.\<close>

definition roundHalfEven :: "rat \<Rightarrow> int" where
  "roundHalfEven x =
     (let f = \<lfloor>x\<rfloor>; r = x - of_int f
      in if r < 1 / 2 then f else if 1 / 2 < r then f + 1 else if even f then f else f + 1)"

text \<open>
  The double nearest to \<open>x\<close>: a multiple of \<open>2^(e - 52)\<close>, where \<open>e\<close> is the exponent
  of \<open>x\<close>, and not less than \<open>-1022\<close> (the subnormal range).
\<close>

definition roundToDouble :: "rat \<Rightarrow> rat" where
  "roundToDouble x =
     (if x = 0 then 0
      else (let e = max (floorLog2 \<bar>x\<bar>) (- 1022);
                ulp = pow2 (e - 52)
            in of_int (roundHalfEven (x / ulp)) * ulp))"

text \<open>The operator \<open>/\<close> on two doubles, the divisor not zero.\<close>

definition divideDoubles :: "rat \<Rightarrow> rat \<Rightarrow> rat" where
  "divideDoubles x y = roundToDouble (x / y)"

section \<open>Currency table\<close>

datatype SymbolPosition = before | after

record CurrencyConfig =
  cc_code :: string
  cc_symbol :: string
  cc_name :: string
  cc_locale :: string
  cc_decimals :: nat
  cc_symbolPosition :: SymbolPosition
  cc_thousandsSeparator :: string
  cc_decimalSeparator :: string

definition USD :: CurrencyConfig where
  "USD =
     \<lparr> cc_code = ''USD'', cc_symbol = ''$'', cc_name = ''US Dollar'',
       cc_locale = ''en-US'', cc_decimals = 2, cc_symbolPosition = before,
       cc_thousandsSeparator = '','', cc_decimalSeparator = ''.'' \<rparr>"

definition EUR :: CurrencyConfig where
  "EUR =
     \<lparr> cc_code = ''EUR'', cc_symbol = [CHR 0xE2, CHR 0x82, CHR 0xAC], cc_name = ''Euro'',
       cc_locale = ''de-DE'', cc_decimals = 2, cc_symbolPosition = after,
       cc_thousandsSeparator = ''.'', cc_decimalSeparator = '','' \<rparr>"

definition GBP :: CurrencyConfig where
  "GBP =
     \<lparr> cc_code = ''GBP'', cc_symbol = [CHR 0xC2, CHR 0xA3], cc_name = ''British Pound'',
       cc_locale = ''en-GB'', cc_decimals = 2, cc_symbolPosition = before,
       cc_thousandsSeparator = '','', cc_decimalSeparator = ''.'' \<rparr>"

definition JPY :: CurrencyConfig where
  "JPY =
     \<lparr> cc_code = ''JPY'', cc_symbol = [CHR 0xC2, CHR 0xA5], cc_name = ''Japanese Yen'',
       cc_locale = ''ja-JP'', cc_decimals = 0, cc_symbolPosition = before,
       cc_thousandsSeparator = '','', cc_decimalSeparator = ''.'' \<rparr>"

definition IDR :: CurrencyConfig where
  "IDR =
     \<lparr> cc_code = ''IDR'', cc_symbol = ''Rp'', cc_name = ''Indonesian Rupiah'',
       cc_locale = ''id-ID'', cc_decimals = 2, cc_symbolPosition = before,
       cc_thousandsSeparator = ''.'', cc_decimalSeparator = '','' \<rparr>"

definition INR :: CurrencyConfig where
  "INR =
     \<lparr> cc_code = ''INR'', cc_symbol = [CHR 0xE2, CHR 0x82, CHR 0xB9], cc_name = ''Indian Rupee'',
       cc_locale = ''en-IN'', cc_decimals = 2, cc_symbolPosition = before,
       cc_thousandsSeparator = '','', cc_decimalSeparator = ''.'' \<rparr>"

definition CNY :: CurrencyConfig where
  "CNY =
     \<lparr> cc_code = ''CNY'', cc_symbol = [CHR 0xC2, CHR 0xA5], cc_name = ''Chinese Yuan'',
       cc_locale = ''zh-CN'', cc_decimals = 2, cc_symbolPosition = before,
       cc_thousandsSeparator = '','', cc_decimalSeparator = ''.'' \<rparr>"

definition KRW :: CurrencyConfig where
  "KRW =
     \<lparr> cc_code = ''KRW'', cc_symbol = [CHR 0xE2, CHR 0x82, CHR 0xA9], cc_name = ''South Korean Won'',
       cc_locale = ''ko-KR'', cc_decimals = 0, cc_symbolPosition = before,
       cc_thousandsSeparator = '','', cc_decimalSeparator = ''.'' \<rparr>"

definition AUD :: CurrencyConfig where
  "AUD =
     \<lparr> cc_code = ''AUD'', cc_symbol = ''A$'', cc_name = ''Australian Dollar'',
       cc_locale = ''en-AU'', cc_decimals = 2, cc_symbolPosition = before,
       cc_thousandsSeparator = '','', cc_decimalSeparator = ''.'' \<rparr>"

definition CAD :: CurrencyConfig where
  "CAD =
     \<lparr> cc_code = ''CAD'', cc_symbol = ''C$'', cc_name = ''Canadian Dollar'',
       cc_locale = ''en-CA'', cc_decimals = 2, cc_symbolPosition = before,
       cc_thousandsSeparator = '','', cc_decimalSeparator = ''.'' \<rparr>"

definition CHF :: CurrencyConfig where
  "CHF =
     \<lparr> cc_code = ''CHF'', cc_symbol = ''CHF'', cc_name = ''Swiss Franc'',
       cc_locale = ''de-CH'', cc_decimals = 2, cc_symbolPosition = before,
       cc_thousandsSeparator = [CHR 0x27], cc_decimalSeparator = ''.'' \<rparr>"

definition SEK :: CurrencyConfig where
  "SEK =
     \<lparr> cc_code = ''SEK'', cc_symbol = ''kr'', cc_name = ''Swedish Krona'',
       cc_locale = ''sv-SE'', cc_decimals = 2, cc_symbolPosition = after,
       cc_thousandsSeparator = '' '', cc_decimalSeparator = '','' \<rparr>"

definition NOK :: CurrencyConfig where
  "NOK =
     \<lparr> cc_code = ''NOK'', cc_symbol = ''kr'', cc_name = ''Norwegian Krone'',
       cc_locale = ''nb-NO'', cc_decimals = 2, cc_symbolPosition = after,
       cc_thousandsSeparator = '' '', cc_decimalSeparator = '','' \<rparr>"

definition DKK :: CurrencyConfig where
  "DKK =
     \<lparr> cc_code = ''DKK'', cc_symbol = ''kr'', cc_name = ''Danish Krone'',
       cc_locale = ''da-DK'', cc_decimals = 2, cc_symbolPosition = after,
       cc_thousandsSeparator = ''.'', cc_decimalSeparator = '','' \<rparr>"

definition PLN :: CurrencyConfig where
  "PLN =
     \<lparr> cc_code = ''PLN'', cc_symbol = [CHR ''z'', CHR 0xC5, CHR 0x82], cc_name = ''Polish Zloty'',
       cc_locale = ''pl-PL'', cc_decimals = 2, cc_symbolPosition = after,
       cc_thousandsSeparator = '' '', cc_decimalSeparator = '','' \<rparr>"

definition RUB :: CurrencyConfig where
  "RUB =
     \<lparr> cc_code = ''RUB'', cc_symbol = [CHR 0xE2, CHR 0x82, CHR 0xBD], cc_name = ''Russian Ruble'',
       cc_locale = ''ru-RU'', cc_decimals = 2, cc_symbolPosition = after,
       cc_thousandsSeparator = '' '', cc_decimalSeparator = '','' \<rparr>"

definition BRL :: CurrencyConfig where
  "BRL =
     \<lparr> cc_code = ''BRL'', cc_symbol = ''R$'', cc_name = ''Brazilian Real'',
       cc_locale = ''pt-BR'', cc_decimals = 2, cc_symbolPosition = before,
       cc_thousandsSeparator = ''.'', cc_decimalSeparator = '','' \<rparr>"

definition MXN :: CurrencyConfig where
  "MXN =
     \<lparr> cc_code = ''MXN'', cc_symbol = ''$'', cc_name = ''Mexican Peso'',
       cc_locale = ''es-MX'', cc_decimals = 2, cc_symbolPosition = before,
       cc_thousandsSeparator = '','', cc_decimalSeparator = ''.'' \<rparr>"

definition ZAR :: CurrencyConfig where
  "ZAR =
     \<lparr> cc_code = ''ZAR'', cc_symbol = ''R'', cc_name = ''South African Rand'',
       cc_locale = ''en-ZA'', cc_decimals = 2, cc_symbolPosition = before,
       cc_thousandsSeparator = '' '', cc_decimalSeparator = '','' \<rparr>"

definition SGD :: CurrencyConfig where
  "SGD =
     \<lparr> cc_code = ''SGD'', cc_symbol = ''S$'', cc_name = ''Singapore Dollar'',
       cc_locale = ''en-SG'', cc_decimals = 2, cc_symbolPosition = before,
       cc_thousandsSeparator = '','', cc_decimalSeparator = ''.'' \<rparr>"

definition HKD :: CurrencyConfig where
  "HKD =
     \<lparr> cc_code = ''HKD'', cc_symbol = ''HK$'', cc_name = ''Hong Kong Dollar'',
       cc_locale = ''en-HK'', cc_decimals = 2, cc_symbolPosition = before,
       cc_thousandsSeparator = '','', cc_decimalSeparator = ''.'' \<rparr>"

definition TWD :: CurrencyConfig where
  "TWD =
     \<lparr> cc_code = ''TWD'', cc_symbol = ''NT$'', cc_name = ''Taiwan Dollar'',
       cc_locale = ''zh-TW'', cc_decimals = 0, cc_symbolPosition = before,
       cc_thousandsSeparator = '','', cc_decimalSeparator = ''.'' \<rparr>"

definition THB :: CurrencyConfig where
  "THB =
     \<lparr> cc_code = ''THB'', cc_symbol = [CHR 0xE0, CHR 0xB8, CHR 0xBF], cc_name = ''Thai Baht'',
       cc_locale = ''th-TH'', cc_decimals = 2, cc_symbolPosition = before,
       cc_thousandsSeparator = '','', cc_decimalSeparator = ''.'' \<rparr>"

definition MYR :: CurrencyConfig where
  "MYR =
     \<lparr> cc_code = ''MYR'', cc_symbol = ''RM'', cc_name = ''Malaysian Ringgit'',
       cc_locale = ''ms-MY'', cc_decimals = 2, cc_symbolPosition = before,
       cc_thousandsSeparator = '','', cc_decimalSeparator = ''.'' \<rparr>"

definition PHP :: CurrencyConfig where
  "PHP =
     \<lparr> cc_code = ''PHP'', cc_symbol = [CHR 0xE2, CHR 0x82, CHR 0xB1], cc_name = ''Philippine Peso'',
       cc_locale = ''en-PH'', cc_decimals = 2, cc_symbolPosition = before,
       cc_thousandsSeparator = '','', cc_decimalSeparator = ''.'' \<rparr>"

definition VND :: CurrencyConfig where
  "VND =
     \<lparr> cc_code = ''VND'', cc_symbol = [CHR 0xE2, CHR 0x82, CHR 0xAB], cc_name = ''Vietnamese Dong'',
       cc_locale = ''vi-VN'', cc_decimals = 0, cc_symbolPosition = after,
       cc_thousandsSeparator = ''.'', cc_decimalSeparator = '','' \<rparr>"

definition AED :: CurrencyConfig where
  "AED =
     \<lparr> cc_code = ''AED'', cc_symbol = ''AED'', cc_name = ''UAE Dirham'',
       cc_locale = ''ar-AE'', cc_decimals = 2, cc_symbolPosition = before,
       cc_thousandsSeparator = '','', cc_decimalSeparator = ''.'' \<rparr>"

definition SAR :: CurrencyConfig where
  "SAR =
     \<lparr> cc_code = ''SAR'', cc_symbol = ''SR'', cc_name = ''Saudi Riyal'',
       cc_locale = ''ar-SA'', cc_decimals = 2, cc_symbolPosition = before,
       cc_thousandsSeparator = '','', cc_decimalSeparator = ''.'' \<rparr>"

definition EGP :: CurrencyConfig where
  "EGP =
     \<lparr> cc_code = ''EGP'', cc_symbol = [CHR ''E'', CHR 0xC2, CHR 0xA3], cc_name = ''Egyptian Pound'',
       cc_locale = ''ar-EG'', cc_decimals = 2, cc_symbolPosition = before,
       cc_thousandsSeparator = '','', cc_decimalSeparator = ''.'' \<rparr>"

definition ILS :: CurrencyConfig where
  "ILS =
     \<lparr> cc_code = ''ILS'', cc_symbol = [CHR 0xE2, CHR 0x82, CHR 0xAA], cc_name = ''Israeli Shekel'',
       cc_locale = ''he-IL'', cc_decimals = 2, cc_symbolPosition = before,
       cc_thousandsSeparator = '','', cc_decimalSeparator = ''.'' \<rparr>"

definition TRY :: CurrencyConfig where
  "TRY =
     \<lparr> cc_code = ''TRY'', cc_symbol = [CHR 0xE2, CHR 0x82, CHR 0xBA], cc_name = ''Turkish Lira'',
       cc_locale = ''tr-TR'', cc_decimals = 2, cc_symbolPosition = before,
       cc_thousandsSeparator = ''.'', cc_decimalSeparator = '','' \<rparr>"

definition CURRENCIES :: "(string \<times> CurrencyConfig) list" where
  "CURRENCIES =
     [(''USD'', USD), (''EUR'', EUR), (''GBP'', GBP), (''JPY'', JPY), (''IDR'', IDR),
      (''INR'', INR), (''CNY'', CNY), (''KRW'', KRW), (''AUD'', AUD), (''CAD'', CAD),
      (''CHF'', CHF), (''SEK'', SEK), (''NOK'', NOK), (''DKK'', DKK), (''PLN'', PLN),
      (''RUB'', RUB), (''BRL'', BRL), (''MXN'', MXN), (''ZAR'', ZAR), (''SGD'', SGD),
      (''HKD'', HKD), (''TWD'', TWD), (''THB'', THB), (''MYR'', MYR), (''PHP'', PHP),
      (''VND'', VND), (''AED'', AED), (''SAR'', SAR), (''EGP'', EGP), (''ILS'', ILS),
      (''TRY'', TRY)]"

section \<open>CurrencyFormatter\<close>

text \<open>\<open>CURRENCIES[currencyCode] || CURRENCIES.USD\<close>\<close>

definition getCurrency :: "string \<Rightarrow> CurrencyConfig" where
  "getCurrency currencyCode =
     (case map_of CURRENCIES currencyCode of Some config \<Rightarrow> config | None \<Rightarrow> USD)"

definition formatNumber :: "rat \<Rightarrow> CurrencyConfig \<Rightarrow> string" where
  "formatNumber amount config =
     (if cc_code config = ''IDR'' then
        (let parts = splitOn CHR ''.'' (toFixed amount (cc_decimals config));
             integerPart = hd parts;
             decimalPart = atIndex parts 1;
             formattedInteger = groupDigits 3 (cc_thousandsSeparator config) integerPart
         in if cc_decimals config > 0 \<and> truthy decimalPart
            then formattedInteger @ cc_decimalSeparator config @ the decimalPart
            else formattedInteger)
      else if cc_code config = ''INR'' then
        (let parts = splitOn CHR ''.'' (toFixed amount (cc_decimals config));
             integerPart = hd parts;
             decimalPart = atIndex parts 1;
             integerPart' =
               (if length integerPart > 3 then
                  (let lastThree = drop (length integerPart - 3) integerPart;
                       remaining = take (length integerPart - 3) integerPart;
                       formattedRemaining = groupDigits 2 '','' remaining
                   in formattedRemaining @ '','' @ lastThree)
                else integerPart)
         in if cc_decimals config > 0 \<and> truthy decimalPart
            then integerPart' @ cc_decimalSeparator config @ the decimalPart
            else integerPart')
      else
        (let parts = splitOn CHR ''.'' (toFixed amount (cc_decimals config));
             integerPart = hd parts;
             decimalPart = atIndex parts 1;
             formattedInteger = groupDigits 3 (cc_thousandsSeparator config) integerPart
         in if cc_decimals config > 0 \<and> truthy decimalPart
            then formattedInteger @ cc_decimalSeparator config @ the decimalPart
            else formattedInteger))"

definition format :: "rat \<Rightarrow> string \<Rightarrow> string" where
  "format amount currencyCode =
     (let config = getCurrency currencyCode;
          formattedNumber = formatNumber amount config
      in if cc_symbolPosition config = before then cc_symbol config @ formattedNumber
         else formattedNumber @ '' '' @ cc_symbol config)"


definition parse :: "string \<Rightarrow> string \<Rightarrow> rat" where
  "parse formattedAmount currencyCode =
     (let config = getCurrency currencyCode;
          cleaned = trim (replaceFirst (cc_symbol config) [] formattedAmount);
          cleaned1 = (if cc_thousandsSeparator config \<noteq> ''.''
                      then removeEscaped (cc_thousandsSeparator config) cleaned else cleaned);
          cleaned2 = (if cc_decimalSeparator config \<noteq> ''.''
                      then replaceFirst (cc_decimalSeparator config) ''.'' cleaned1 else cleaned1);
          cleaned3 = (if cc_code config = ''IDR'' then
                        (let parts = splitOn CHR '','' cleaned2
                         in if length parts = 2
                            then removeDots (parts ! 0) @ ''.'' @ parts ! 1
                            else removeDots cleaned2)
                      else cleaned2)
      in case parseFloat cleaned3 of None \<Rightarrow> 0 | Some v \<Rightarrow> v)"

section \<open>NumberFormatter\<close>

text \<open>The rows \<open>{ threshold, suffix, decimals }\<close>, in the order of the source.\<close>

definition abbreviations :: "(rat \<times> string \<times> nat) list" where
  "abbreviations =
     [(10 ^ 12, ''T'', 1), (10 ^ 9, ''B'', 1), (10 ^ 6, ''M'', 1), (10 ^ 3, ''K'', 1)]"

text \<open>
  The loop \<open>for (const abbrev of this.abbreviations)\<close>: it returns from the first row
  whose threshold the magnitude reaches; \<open>None\<close> when it falls through.
\<close>

fun abbreviateLoop ::
  "(rat \<Rightarrow> string) \<Rightarrow> (rat \<times> string \<times> nat) list \<Rightarrow> rat \<Rightarrow> bool \<Rightarrow> string option" where
  "abbreviateLoop fracToString [] val forceDecimals = None"
| "abbreviateLoop fracToString ((threshold, suffix, decimals) # rest) val forceDecimals =
     (if \<bar>val\<bar> \<ge> threshold then
        (let abbreviated = divideDoubles val threshold;
             showDecimals = (forceDecimals \<or> (remainder1 abbreviated \<noteq> 0 \<and> abbreviated < 100))
         in if showDecimals then Some (toFixed abbreviated decimals @ suffix)
            else Some (numberToString fracToString (of_int (Math_round abbreviated)) @ suffix))
      else abbreviateLoop fracToString rest val forceDecimals)"

definition abbreviate :: "(rat \<Rightarrow> string) \<Rightarrow> rat \<Rightarrow> bool \<Rightarrow> string" where
  "abbreviate fracToString val forceDecimals =
     (if \<bar>val\<bar> < 1000 then
        (if forceDecimals then toFixed val 1 else numberToString fracToString val)
      else
        (case abbreviateLoop fracToString abbreviations val forceDecimals of
           Some r \<Rightarrow> r
         | None \<Rightarrow> numberToString fracToString val))"

subsection \<open>The abbreviation rule in the words of the specification\<close>




section \<open>Concrete states and inputs\<close>

definition clock0 :: Clock where
  "clock0 = \<lparr> now_ms = ''1700000000000'', now_iso = ''2023-11-14T22:13:20.000Z'' \<rparr>"

text \<open>One account, \<open>a1\<close>, with balance 100.\<close>

definition account0 :: SavingsAccount where
  "account0 =
     \<lparr> sa_id = ''a1'', sa_bankName = ''Bank'', sa_accountName = ''Main'', sa_balance = 100,
       sa_createdAt = ''2023-01-01T00:00:00.000Z'', sa_updatedAt = ''2023-01-01T00:00:00.000Z'' \<rparr>"

text \<open>A stored expense of 50 on account \<open>a1\<close>.\<close>

definition expense0 :: SpendingEntry where
  "expense0 =
     \<lparr> se_id = ''e1'', se_date = ''2023-01-02'', se_amount = 50, se_category = ''Food'',
       se_description = None, se_accountId = Some ''a1'', se_type = Expense,
       se_transferToAccountId = None,
       se_createdAt = ''2023-01-02T00:00:00.000Z'', se_updatedAt = ''2023-01-02T00:00:00.000Z'' \<rparr>"

definition storage0 :: Storage where
  "storage0 = \<lparr> spending = [expense0], savings = [account0], investments = [], settings = None \<rparr>"

text \<open>The object literal \<open>{ amount: a }\<close>.\<close>

definition amountUpdate :: "rat \<Rightarrow> SpendingEntryUpdates" where
  "amountUpdate a =
     \<lparr> up_id = None, up_date = None, up_amount = Some a, up_category = None,
       up_description = None, up_accountId = None, up_type = None,
       up_transferToAccountId = None, up_createdAt = None, up_updatedAt = None \<rparr>"

text \<open>An expense of 150 on account \<open>a1\<close>, and an expense without an account.\<close>

definition input0 :: SpendingEntryInput where
  "input0 =
     \<lparr> in_date = ''2023-01-03'', in_amount = 150, in_category = ''Food'',
       in_description = None, in_accountId = Some ''a1'', in_type = Expense,
       in_transferToAccountId = None \<rparr>"

definition input1 :: SpendingEntryInput where
  "input1 =
     \<lparr> in_date = ''2023-01-03'', in_amount = 150, in_category = ''Food'',
       in_description = None, in_accountId = None, in_type = Expense,
       in_transferToAccountId = None \<rparr>"

definition investment :: "string \<Rightarrow> rat \<Rightarrow> Investment" where
  "investment i a =
     \<lparr> inv_id = i, inv_name = ''Fund'', inv_amount = a, inv_date = ''2023-01-01'',
       inv_notes = None, inv_createdAt = ''2023-01-01T00:00:00.000Z'',
       inv_updatedAt = ''2023-01-01T00:00:00.000Z'' \<rparr>"

text \<open>Two investments, of 100 and of 50.\<close>

definition storage1 :: Storage where
  "storage1 =
     \<lparr> spending = [], savings = [], investments = [investment ''i1'' 100, investment ''i2'' 50],
       settings = None \<rparr>"




subsection \<open>The grouping for INR in the words of the specification\<close>





section \<open>The ledger engine: results\<close>

text \<open>
  Claim C3 says that \<open>getTotalInvestments\<close> returns the sum of the amounts of all stored
  investments. The reducer of the source ignores its accumulator: with investments of 100
  and 50 stored, the function returns 50, the amount of the last one, while the sum of the
  amounts is 150.
\<close>

theorem getTotalInvestments_keeps_last_amount_only:
  "getTotalInvestments storage1 = 50 \<and>
   sum_list (map inv_amount (getInvestments storage1)) = 150"
  by (simp add: getTotalInvestments_def getInvestments_def storage1_def investment_def)

text \<open>
  Claim C7: when the account that an expense of 150 names exists and has balance 100,
  \<open>addSpendingEntry\<close> fails with \<open>InsufficientBalance\<close> and leaves the storage as it
  was: the balance stays at 100 and the entry is not persisted. The account is the one
  that \<open>find\<close> returns for the id; an id is the text of a time stamp and so is not
  the empty string, which the source treats as no account at all.
\<close>

theorem addSpendingEntry_insufficient_balance:
  assumes "find (\<lambda>acc. sa_id acc = accountId) (getSavingsAccounts st) = Some account"
    and "sa_balance account = 100"
    and "accountId \<noteq> []"
    and "in_type entry = Expense" and "in_amount entry = 150"
    and "in_accountId entry = Some accountId"
  shows "addSpendingEntry clk entry st = (Inl InsufficientBalance, st)"
  using assms
  by (simp add: addSpendingEntry_def applyAccountChanges_def truthy_def)

theorem addSpendingEntry_insufficient_balance_witness:
  "addSpendingEntry clock0 input0 storage0 = (Inl InsufficientBalance, storage0) \<and>
   map sa_balance (savings storage0) = [100] \<and> spending storage0 = [expense0]"
  using addSpendingEntry_insufficient_balance [of "''a1''" storage0 account0 input0 clock0]
  by (simp add: storage0_def account0_def input0_def getSavingsAccounts_def)

text \<open>
  Claim C10: for an entry of type expense whose \<open>accountId\<close> is undefined,
  \<open>addSpendingEntry\<close> succeeds whatever the amount and the balances are. The entry
  that it returns and appends to the stored entries has the date, amount, category,
  description and \<open>transferToAccountId\<close> of the argument, type expense, no account, the
  time in milliseconds as its id and the time stamp as \<open>createdAt\<close> and \<open>updatedAt\<close>.
  The stored entries before it, the savings accounts, the investments and the settings
  are as they were.
\<close>

theorem addSpendingEntry_expense_without_account:
  assumes "in_type entry = Expense" and "in_accountId entry = None"
  shows "(let stored =
             \<lparr> se_id = now_ms clk,
               se_date = in_date entry,
               se_amount = in_amount entry,
               se_category = in_category entry,
               se_description = in_description entry,
               se_accountId = None,
               se_type = Expense,
               se_transferToAccountId = in_transferToAccountId entry,
               se_createdAt = now_iso clk,
               se_updatedAt = now_iso clk \<rparr>
          in addSpendingEntry clk entry st =
               (Inr stored,
                \<lparr> spending = spending st @ [stored], savings = savings st,
                  investments = investments st, settings = settings st \<rparr>))"
  using assms
  by (simp add: addSpendingEntry_def applyAccountChanges_def truthy_def getSpendingEntries_def
      newEntryOf_def Let_def)

text \<open>
  An expense of 150 without an account, added to the storage that holds the expense
  \<open>e1\<close> and the account \<open>a1\<close> with balance 100.
\<close>

theorem addSpendingEntry_expense_without_account_witness:
  "addSpendingEntry clock0 input1 storage0 =
     (Inr \<lparr> se_id = ''1700000000000'', se_date = ''2023-01-03'', se_amount = 150,
            se_category = ''Food'', se_description = None, se_accountId = None,
            se_type = Expense, se_transferToAccountId = None,
            se_createdAt = ''2023-11-14T22:13:20.000Z'',
            se_updatedAt = ''2023-11-14T22:13:20.000Z'' \<rparr>,
      \<lparr> spending =
          [expense0,
           \<lparr> se_id = ''1700000000000'', se_date = ''2023-01-03'', se_amount = 150,
             se_category = ''Food'', se_description = None, se_accountId = None,
             se_type = Expense, se_transferToAccountId = None,
             se_createdAt = ''2023-11-14T22:13:20.000Z'',
             se_updatedAt = ''2023-11-14T22:13:20.000Z'' \<rparr>],
        savings = [account0], investments = [], settings = None \<rparr>) \<and>
   map sa_balance (savings (snd (addSpendingEntry clock0 input1 storage0))) = [100]"
  using addSpendingEntry_expense_without_account [of input1 clock0 storage0]
  by (simp add: input1_def storage0_def clock0_def account0_def Let_def)

text \<open>
  Claim C1 says that a failed re-apply in \<open>updateSpendingEntry\<close> leaves the balances as
  they were before the call. In the source the revert is written to storage before the
  re-apply is checked: with account \<open>a1\<close> at balance 100 and a stored expense of 50 on
  it, an update of the amount to 500 throws \<open>InsufficientBalance\<close>, the stored entry is
  unchanged, and the balance of \<open>a1\<close> is left at 150.
\<close>

theorem updateSpendingEntry_leaves_revert_applied:
  "fst (updateSpendingEntry clock0 ''e1'' (amountUpdate 500) storage0) = Inl InsufficientBalance \<and>
   map sa_balance (savings storage0) = [100] \<and>
   map sa_balance (savings (snd (updateSpendingEntry clock0 ''e1'' (amountUpdate 500) storage0)))
     = [150] \<and>
   spending (snd (updateSpendingEntry clock0 ''e1'' (amountUpdate 500) storage0))
     = spending storage0"
  by (simp add: updateSpendingEntry_def revertAccountChanges_def applyAccountChanges_def
      updateSavingsAccount_def mergeAccount_def mergeEntry_def balanceUpdate_def truthy_def
      getSpendingEntries_def getSavingsAccounts_def storage0_def expense0_def account0_def
      amountUpdate_def clock0_def)

section \<open>Settings: results\<close>

















section \<open>CurrencyFormatter: evaluation at concrete amounts\<close>

text \<open>
  Amounts are written as fractions in lowest terms: \<open>2469135 / 2\<close> is 1234567.5 and
  \<open>123456789 / 100\<close> is 1234567.89.
\<close>

lemma floor_numeral_div_rat: "\<lfloor>numeral a / numeral b :: rat\<rfloor> = numeral a div numeral b"
  using floor_divide_of_int_eq [of "numeral a" "numeral b", where ?'a = rat] by simp

lemmas toFixed_eval = toFixed_def Let_def floor_numeral_div_rat digitsOf.simps digitChar_def

lemmas groupDigits_eval = groupDigits_def isDigit_def isWordChar_def

lemmas formatNumber_eval = formatNumber_def Let_def atIndex_def truthy_def

lemmas parseFloat_eval =
  parseFloat_def isSpace_def isDigit_def digitsValue_def digitValue_def pow10_def

lemma getCurrency_IDR: "getCurrency ''IDR'' = IDR"
  by (simp add: getCurrency_def CURRENCIES_def)


lemma getCurrency_EUR: "getCurrency ''EUR'' = EUR"
  by (simp add: getCurrency_def CURRENCIES_def)


lemma toFixed_1234567: "toFixed 1234567 2 = ''1234567.00''"
  by (simp add: toFixed_eval)

lemma toFixed_1234567_5: "toFixed (2469135 / 2) 2 = ''1234567.50''"
  by (simp add: toFixed_eval)


lemma toFixed_half: "toFixed (1 / 2) 2 = ''0.50''"
  by (simp add: toFixed_eval)

lemma toFixed_1000: "toFixed 1000 2 = ''1000.00''"
  by (simp add: toFixed_eval)


lemma groupDigits_1234567: "groupDigits 3 sep ''1234567'' = ''1'' @ sep @ ''234'' @ sep @ ''567''"
  by (simp add: groupDigits_eval)

lemma groupDigits_1000: "groupDigits 3 sep ''1000'' = ''1'' @ sep @ ''000''"
  by (simp add: groupDigits_eval)

lemma groupDigits_0: "groupDigits 3 sep ''0'' = ''0''"
  by (simp add: groupDigits_eval)



lemma format_IDR_1234567: "format 1234567 ''IDR'' = ''Rp1.234.567,00''"
  by (simp add: format_def getCurrency_IDR formatNumber_eval toFixed_1234567
      groupDigits_1234567 IDR_def)

lemma format_IDR_1234567_5: "format (2469135 / 2) ''IDR'' = ''Rp1.234.567,50''"
  by (simp add: format_def getCurrency_IDR formatNumber_eval toFixed_1234567_5
      groupDigits_1234567 IDR_def)



lemma format_IDR_half: "format (1 / 2) ''IDR'' = ''Rp0,50''"
  by (simp add: format_def getCurrency_IDR formatNumber_eval toFixed_half
      groupDigits_0 IDR_def)

lemma format_EUR_1000: "format 1000 ''EUR'' = ''1.000,00 '' @ [CHR 0xE2, CHR 0x82, CHR 0xAC]"
  by (simp add: format_def getCurrency_EUR formatNumber_eval toFixed_1000
      groupDigits_1000 EUR_def)

lemma parseFloat_050: "parseFloat ''050'' = Some 50"
  by (simp add: parseFloat_eval)

lemma parseFloat_1_000_00: "parseFloat ''1.000.00'' = Some 1"
  by (simp add: parseFloat_eval)

lemma parse_IDR_half: "parse ''Rp0,50'' ''IDR'' = 50"
  by (simp add: parse_def getCurrency_IDR IDR_def trim_def isSpace_def removeDots_def
      parseFloat_050 Let_def)

lemma parse_EUR_1000: "parse (''1.000,00 '' @ [CHR 0xE2, CHR 0x82, CHR 0xAC]) ''EUR'' = 1"
  by (simp add: parse_def getCurrency_EUR EUR_def trim_def isSpace_def
      parseFloat_1_000_00 Let_def)

text \<open>
  Claim C4 says that \<open>format(1234567, 'IDR')\<close> is \<open>Rp1.234.567\<close>. The amount is
  rendered with \<open>toFixed(2)\<close>, the two decimals of the table's row for IDR, so the
  result carries the decimal part \<open>,00\<close> and is not the string of the claim.
\<close>

theorem format_IDR_whole_amount_counterexample:
  "format 1234567 ''IDR'' \<noteq> ''Rp1.234.567''"
  by (simp add: format_IDR_1234567)

text \<open>
  Claim C4 as amended: \<open>format(1234567, 'IDR')\<close> is \<open>Rp1.234.567,00\<close>, with the dot as
  thousands separator and the two decimals of the table, and \<open>format(1234567.5, 'IDR')\<close>
  is \<open>Rp1.234.567,50\<close>.
\<close>

theorem format_IDR_two_decimals:
  "format 1234567 ''IDR'' = ''Rp1.234.567,00'' \<and>
   format (2469135 / 2) ''IDR'' = ''Rp1.234.567,50''"
  by (simp add: format_IDR_1234567 format_IDR_1234567_5)

text \<open>
  Claim C2 says that parsing what \<open>format\<close> printed gives the amount back, for every
  currency of the table and the amounts 0, 0.5, 999.99, 1000 and 1234567.89. For IDR
  the decimal comma has already been replaced by a point when the branch for IDR splits
  at the comma, so all points are removed: 0.5 is printed as \<open>Rp0,50\<close> and read back
  as 50. For EUR the points between the thousands are never removed: 1000 is printed as
  \<open>1.000,00\<close> followed by the euro sign and read back as 1.
\<close>

theorem parse_format_round_trip_fails:
  "parse (format (1 / 2) ''IDR'') ''IDR'' = 50 \<and> parse (format 1000 ''EUR'') ''EUR'' = 1"
  by (simp add: format_IDR_half parse_IDR_half format_EUR_1000 parse_EUR_1000
      del: append.simps)

section \<open>CurrencyFormatter: the sign of the amount\<close>
















lemmas CURRENCY_defs =
  USD_def EUR_def GBP_def JPY_def IDR_def INR_def CNY_def KRW_def AUD_def CAD_def CHF_def
  SEK_def NOK_def DKK_def PLN_def RUB_def BRL_def MXN_def ZAR_def SGD_def HKD_def TWD_def
  THB_def MYR_def PHP_def VND_def AED_def SAR_def EGP_def ILS_def TRY_def


lemma table_codes: "\<forall>(code, config) \<in> set CURRENCIES. cc_code config = code"
  by (simp add: CURRENCIES_def CURRENCY_defs)


lemma getCurrency_not_INR:
  assumes "currencyCode \<noteq> ''INR''"
  shows "cc_code (getCurrency currencyCode) \<noteq> ''INR''"
proof (cases "map_of CURRENCIES currencyCode")
  case None
  then have "getCurrency currencyCode = USD" by (simp add: getCurrency_def)
  then show ?thesis by (simp add: USD_def)
next
  case (Some config)
  then have "(currencyCode, config) \<in> set CURRENCIES" by (rule map_of_SomeD)
  with table_codes have "cc_code config = currencyCode" by blast
  with Some assms show ?thesis by (simp add: getCurrency_def)
qed





section \<open>CurrencyFormatter: the grouping for INR\<close>










lemma digitsOf_step: "10 \<le> n \<Longrightarrow> digitsOf n = digitsOf (n div 10) @ [digitChar (n mod 10)]"
  by (subst digitsOf.simps) simp

lemma digitsOf_small: "n < 10 \<Longrightarrow> digitsOf n = [digitChar n]"
  by (subst digitsOf.simps) simp











lemma length_digitsOf_1: "n < 10 \<Longrightarrow> length (digitsOf n) = 1"
  by (simp add: digitsOf_small)

lemma length_digitsOf_2: "10 \<le> n \<Longrightarrow> n < 100 \<Longrightarrow> length (digitsOf n) = 2"
  by (simp add: digitsOf_step [of n] digitsOf_small [of "n div 10"])

lemma length_digitsOf_3: "100 \<le> n \<Longrightarrow> n < 1000 \<Longrightarrow> length (digitsOf n) = 3"
  using length_digitsOf_2 [of "n div 10"] by (simp add: digitsOf_step [of n])

lemma length_digitsOf_4: "1000 \<le> n \<Longrightarrow> 4 \<le> length (digitsOf n)"
proof (induction n rule: digitsOf.induct)
  case (1 n)
  show ?case
  proof (cases "n < 10000")
    case True
    with 1(2) have "length (digitsOf (n div 10)) = 3"
      by (intro length_digitsOf_3) simp_all
    with 1(2) show ?thesis by (simp add: digitsOf_step [of n])
  next
    case False
    then have "4 \<le> length (digitsOf (n div 10))"
      by (intro 1(1)) simp_all
    with 1(2) show ?thesis by (simp add: digitsOf_step [of n])
  qed
qed

lemma length_digitsOf_3_iff: "length (digitsOf n) = 3 \<longleftrightarrow> 100 \<le> n \<and> n < 1000"
proof -
  consider "n < 10" | "10 \<le> n" "n < 100" | "100 \<le> n" "n < 1000" | "1000 \<le> n"
    by linarith
  then show ?thesis
  proof cases
    case 1 then show ?thesis using length_digitsOf_1 [of n] by simp
  next
    case 2 then show ?thesis using length_digitsOf_2 [of n] by simp
  next
    case 3 then show ?thesis using length_digitsOf_3 [of n] by simp
  next
    case 4 then show ?thesis using length_digitsOf_4 [of n] by simp
  qed
qed
















section \<open>CurrencyFormatter: sign and decimals\<close>





















section \<open>NumberFormatter: results\<close>





lemma bitLength_1: "bitLength (Suc 0) = 1"
  by (simp add: bitLength.simps)


lemmas roundToDouble_eval =
  divideDoubles_def roundToDouble_def floorLog2_def pow2_def roundHalfEven_def Let_def
  floor_numeral_div_rat




lemma divideDoubles_1450:
  "divideDoubles 1450 1000 = 6530219459687219 / 4503599627370496"
  by (simp add: roundToDouble_eval bitLength_1)



lemma toFixed_1_45: "toFixed (6530219459687219 / 4503599627370496) (Suc 0) = ''1.4''"
  by (simp add: toFixed_eval)




lemma abbreviate_1450: "abbreviate fracToString 1450 False = ''1.4K''"
  by (simp add: abbreviate_def abbreviations_def divideDoubles_1450 remainder1_def toFixed_1_45
      floor_numeral_div_rat)















text \<open>
  The division rounds: 1450 / 1000 is the double just below 1.45, and \<open>abbreviate(1450)\<close>
  is \<open>1.4K\<close>.
\<close>

lemma abbreviate_rounds_the_quotient: "abbreviate fracToString 1450 False = ''1.4K''"
  by (rule abbreviate_1450)



end
